theory Spec2Isabelle
  imports Complex_Main "HOL-Library.Multiset"
begin

section \<open>JavaScript values used by the dashboard\<close>

text \<open>
  A JavaScript number is a finite value, NaN or one of the two infinities. A finite value
  is the real number it denotes; the two zeros are one. Where the code computes, the
  result of each operation passes through the rounding of the double format, which is a
  parameter of the model (\<open>lib_round\<close> below).
\<close>

datatype jsnum = Num real | NaN | PosInf | NegInf

text \<open>\<^verbatim>\<open>isFinite(x)\<close> and \<^verbatim>\<open>Number.isFinite(x)\<close> on a number.\<close>

fun isFinite :: "jsnum \<Rightarrow> bool" where
  "isFinite (Num r) = True"
| "isFinite NaN = False"
| "isFinite PosInf = False"
| "isFinite NegInf = False"

text \<open>\<^verbatim>\<open>x <= 0\<close>: every comparison with NaN is false.\<close>

fun le_zero :: "jsnum \<Rightarrow> bool" where
  "le_zero (Num r) = (r \<le> 0)"
| "le_zero NaN = False"
| "le_zero PosInf = False"
| "le_zero NegInf = True"

text \<open>\<^verbatim>\<open>x > 0\<close>, the test a sort applies to the value of its comparator.\<close>

fun gt_zero :: "jsnum \<Rightarrow> bool" where
  "gt_zero (Num r) = (0 < r)"
| "gt_zero NaN = False"
| "gt_zero PosInf = True"
| "gt_zero NegInf = False"

text \<open>A string between double quotes.\<close>

definition quoted :: "string \<Rightarrow> string" where
  "quoted s = [CHR 0x22] @ s @ [CHR 0x22]"

subsection \<open>Values read from the API\<close>

text \<open>
  The value of \<^verbatim>\<open>JSON.parse\<close>, with \<open>JUndefined\<close> for the result of reading a property
  that is not there. An object is the list of its own properties.
\<close>

datatype jsval =
    JUndefined
  | JNull
  | JBool bool
  | JNum jsnum
  | JStr string
  | JArr "jsval list"
  | JObj "(string \<times> jsval) list"

text \<open>
  What a \<^verbatim>\<open>throw\<close> carries: \<open>Error m\<close> is \<^verbatim>\<open>new Error(m)\<close>, whose message is \<open>m\<close> as a
  string; \<open>SyntaxError\<close> is the failure of \<^verbatim>\<open>JSON.parse\<close>; \<open>TypeError\<close> is a property read
  of \<^verbatim>\<open>undefined\<close> or \<^verbatim>\<open>null\<close>.
\<close>

datatype error = Error jsval | SyntaxError | TypeError

fun isArray :: "jsval \<Rightarrow> bool" where
  "isArray (JArr xs) = True"
| "isArray v = False"

fun elements :: "jsval \<Rightarrow> jsval list" where
  "elements (JArr xs) = xs"
| "elements v = []"

fun nullish :: "jsval \<Rightarrow> bool" where
  "nullish JUndefined = True"
| "nullish JNull = True"
| "nullish v = False"

text \<open>The truth value of a value in a condition.\<close>

fun truthy :: "jsval \<Rightarrow> bool" where
  "truthy JUndefined = False"
| "truthy JNull = False"
| "truthy (JBool b) = b"
| "truthy (JNum (Num r)) = (r \<noteq> 0)"
| "truthy (JNum NaN) = False"
| "truthy (JNum PosInf) = True"
| "truthy (JNum NegInf) = True"
| "truthy (JStr s) = (s \<noteq> [])"
| "truthy (JArr xs) = True"
| "truthy (JObj kvs) = True"

text \<open>
  \<^verbatim>\<open>v.k\<close> for a property name \<open>k\<close> that no primitive and no array has of its own accord
  (\<^verbatim>\<open>keywords\<close>, \<^verbatim>\<open>error\<close>, \<^verbatim>\<open>message\<close>): it throws on \<^verbatim>\<open>undefined\<close> and \<^verbatim>\<open>null\<close>, reads an
  object, and is \<^verbatim>\<open>undefined\<close> everywhere else.
\<close>

fun get_prop :: "jsval \<Rightarrow> string \<Rightarrow> error + jsval" where
  "get_prop JUndefined k = Inl TypeError"
| "get_prop JNull k = Inl TypeError"
| "get_prop (JObj kvs) k = Inr (case map_of kvs k of None \<Rightarrow> JUndefined | Some v \<Rightarrow> v)"
| "get_prop v k = Inr JUndefined"

text \<open>\<^verbatim>\<open>v?.k\<close> never throws.\<close>

definition opt_prop :: "jsval \<Rightarrow> string \<Rightarrow> jsval" where
  "opt_prop v k =
     (if nullish v then JUndefined
      else (case get_prop v k of Inl e \<Rightarrow> JUndefined | Inr w \<Rightarrow> w))"

text \<open>\<^verbatim>\<open>a ?? b\<close>.\<close>

definition coalesce :: "jsval \<Rightarrow> jsval \<Rightarrow> jsval" where
  "coalesce a b = (if nullish a then b else a)"

text \<open>
  \<^verbatim>\<open>Number(v)\<close>. On \<^verbatim>\<open>undefined\<close>, \<^verbatim>\<open>null\<close>, a boolean and a number the language fixes the
  result; on a string, an array or an object it is the conversion of the library, the
  parameter \<open>conv\<close>.
\<close>

fun Number :: "(jsval \<Rightarrow> jsnum) \<Rightarrow> jsval \<Rightarrow> jsnum" where
  "Number conv JUndefined = NaN"
| "Number conv JNull = Num 0"
| "Number conv (JBool b) = Num (if b then 1 else 0)"
| "Number conv (JNum x) = x"
| "Number conv v = conv v"

text \<open>
  What the arithmetic of the front end takes from the library and the machine:
  \<open>lib_number\<close> is the conversion above, and \<open>lib_round\<close> gives the double that an exact
  result is rounded to, or an infinity where the result is out of range.
\<close>

record js_lib =
  lib_number :: "jsval \<Rightarrow> jsnum"
  lib_round :: "real \<Rightarrow> jsnum"

section \<open>Sorting by time\<close>

text \<open>
  \<^verbatim>\<open>new Date(s).getTime()\<close> is a function of the JavaScript library: it is the parameter
  \<open>getTime\<close>, which gives the milliseconds of a timestamp that parses and \<open>None\<close> (the
  NaN of an Invalid Date) for one that does not. The comparator of all three sorts in
  the front end is the difference of two such times.
\<close>

definition time_diff :: "(string \<Rightarrow> int option) \<Rightarrow> string \<Rightarrow> string \<Rightarrow> jsnum" where
  "time_diff getTime s t =
     (case getTime s of
        None \<Rightarrow> NaN
      | Some x \<Rightarrow> (case getTime t of None \<Rightarrow> NaN | Some y \<Rightarrow> Num (of_int (x - y))))"

text \<open>
  \<^verbatim>\<open>Array.prototype.sort(cmp)\<close> is stable, and treats a NaN from the comparator as 0.
  It is modelled as a stable insertion sort: an element moves behind the elements it is
  strictly greater than. For a consistent comparator (here: every timestamp parses) the
  standard fixes the result and every stable sort computes it. For an inconsistent one
  the standard leaves the order to the engine, which need not order as this model does:
  every statement below about a sorted order assumes that the timestamps parse.
\<close>

fun js_insert :: "('a \<Rightarrow> 'a \<Rightarrow> jsnum) \<Rightarrow> 'a \<Rightarrow> 'a list \<Rightarrow> 'a list" where
  "js_insert cmp x [] = [x]"
| "js_insert cmp x (y # ys) =
     (if gt_zero (cmp x y) then y # js_insert cmp x ys else x # y # ys)"

definition js_sort :: "('a \<Rightarrow> 'a \<Rightarrow> jsnum) \<Rightarrow> 'a list \<Rightarrow> 'a list" where
  "js_sort cmp xs = foldr (js_insert cmp) xs []"

text \<open>The time of a timestamp as a sort key; 0 stands in where there is none.\<close>

definition time_key :: "(string \<Rightarrow> int option) \<Rightarrow> string \<Rightarrow> int" where
  "time_key getTime s = (case getTime s of None \<Rightarrow> 0 | Some x \<Rightarrow> x)"

section \<open>Series of a keyword\<close>

text \<open>
  One element of \<^verbatim>\<open>KeywordSeriesResponse.series\<close>. The declared type of \<^verbatim>\<open>media\<close> and
  \<^verbatim>\<open>mediana\<close> is number; what the reply holds there is whatever JSON value the back end
  wrote, \<^verbatim>\<open>null\<close> for a run without listings, or nothing (\<open>JUndefined\<close>).
\<close>

record point =
  scraped_at :: string
  media :: jsval
  mediana :: jsval

text \<open>The reply of \<^verbatim>\<open>getKeywordSeries\<close>; \<open>series\<close> is \<open>None\<close> where the property is missing.\<close>

record series_response =
  keyword :: string
  series :: "point list option"

text \<open>\<^verbatim>\<open>s.series ?? []\<close>.\<close>

definition series_points :: "series_response \<Rightarrow> point list" where
  "series_points s = (case series s of None \<Rightarrow> [] | Some ps \<Rightarrow> ps)"

text \<open>
  \<^verbatim>\<open>(ser.series ?? []).slice().sort((a, b) => new Date(a.scraped_at).getTime()
  - new Date(b.scraped_at).getTime())\<close>, in \<^verbatim>\<open>loadPriceChangesForCards\<close> and in
  \<^verbatim>\<open>seriesChartData\<close>.
\<close>

definition sort_series :: "(string \<Rightarrow> int option) \<Rightarrow> point list \<Rightarrow> point list" where
  "sort_series getTime pts =
     js_sort (\<lambda>a b. time_diff getTime (scraped_at a) (scraped_at b)) pts"

definition parses :: "(string \<Rightarrow> int option) \<Rightarrow> string \<Rightarrow> bool" where
  "parses getTime s = (getTime s \<noteq> None)"

text \<open>
  \<^verbatim>\<open>seriesChartData\<close> in \<^verbatim>\<open>ProductDetailPanel\<close>: the points of \<^verbatim>\<open>series?.series ?? []\<close>,
  sorted, each as the date label, the median and the mean that the chart draws. The state
  \<^verbatim>\<open>series\<close> is \<open>None\<close> until a reply has arrived; \<open>formatDate\<close> is the function of that
  name, a parameter here.
\<close>

definition seriesChartData ::
  "(string \<Rightarrow> int option) \<Rightarrow> (string \<Rightarrow> string) \<Rightarrow> series_response option
   \<Rightarrow> (string \<times> jsval \<times> jsval) list" where
  "seriesChartData getTime formatDate st =
     map (\<lambda>p. (formatDate (scraped_at p), mediana p, media p))
       (sort_series getTime (case st of None \<Rightarrow> [] | Some s \<Rightarrow> series_points s))"

subsection \<open>Percentage change of the cards\<close>

text \<open>
  The body of the callback of \<^verbatim>\<open>loadPriceChangesForCards\<close> once the series has
  arrived, with \<^verbatim>\<open>prev = Number(sorted[sorted.length - 2].mediana)\<close> and
  \<^verbatim>\<open>last = Number(sorted[sorted.length - 1].mediana)\<close>. \<open>Return0\<close> is one of the two early
  \<^verbatim>\<open>return [kw, 0]\<close>; \<open>Divide l p\<close> is the path that reaches
  \<^verbatim>\<open>const pct = ((last - prev) / prev) * 100\<close>, the only division, with \<open>l\<close> and \<open>p\<close> the
  values of \<^verbatim>\<open>last\<close> and \<^verbatim>\<open>prev\<close>. Past the guard both are finite, so the last case of the
  model is never taken.
\<close>

datatype path = Return0 | Divide real real

definition change_path :: "(jsval \<Rightarrow> jsnum) \<Rightarrow> (string \<Rightarrow> int option) \<Rightarrow> point list \<Rightarrow> path" where
  "change_path conv getTime pts =
     (let sorted = sort_series getTime pts in
      if length sorted < 2 then Return0
      else
        let prev_m = Number conv (mediana (sorted ! (length sorted - 2)));
            last_m = Number conv (mediana (sorted ! (length sorted - 1)))
        in if \<not> isFinite prev_m \<or> le_zero prev_m \<or> \<not> isFinite last_m then Return0
           else (case (last_m, prev_m) of
                   (Num l, Num p) \<Rightarrow> Divide l p
                 | _ \<Rightarrow> Return0))"

text \<open>
  \<^verbatim>\<open>((last - prev) / prev) * 100\<close> on finite \<^verbatim>\<open>last\<close> and finite \<^verbatim>\<open>prev > 0\<close>: three
  operations, each the exact result rounded by \<open>rnd\<close>. Where an operation leaves the
  range its result is an infinity, which the division by the positive \<^verbatim>\<open>prev\<close> and the
  multiplication by 100 leave as it is.
\<close>

definition pct :: "(real \<Rightarrow> jsnum) \<Rightarrow> real \<Rightarrow> real \<Rightarrow> jsnum" where
  "pct rnd last_m prev_m =
     (case rnd (last_m - prev_m) of
        Num d \<Rightarrow> (case rnd (d / prev_m) of Num q \<Rightarrow> rnd (q * 100) | x \<Rightarrow> x)
      | x \<Rightarrow> x)"

definition price_change :: "js_lib \<Rightarrow> (string \<Rightarrow> int option) \<Rightarrow> point list \<Rightarrow> jsnum" where
  "price_change lib getTime pts =
     (case change_path (lib_number lib) getTime pts of
        Return0 \<Rightarrow> Num 0
      | Divide last_m prev_m \<Rightarrow> pct (lib_round lib) last_m prev_m)"

section \<open>The API client\<close>

fun digit_char :: "nat \<Rightarrow> char" where
  "digit_char n = ''0123456789'' ! n"

fun show_nat :: "nat \<Rightarrow> string" where
  "show_nat n = (if n < 10 then [digit_char n] else show_nat (n div 10) @ [digit_char (n mod 10)])"

text \<open>What \<^verbatim>\<open>apiJson\<close> has after \<^verbatim>\<open>fetch\<close> and \<^verbatim>\<open>res.text().catch(() => '')\<close>.\<close>

record response =
  ok :: bool
  status :: nat
  body :: string

text \<open>\<^verbatim>\<open>j?.error?.message ?? j?.message ?? text\<close>; the text is a string, never nullish.\<close>

definition error_message :: "jsval \<Rightarrow> string \<Rightarrow> jsval" where
  "error_message j txt =
     coalesce (opt_prop (opt_prop j ''error'') ''message'')
       (coalesce (opt_prop j ''message'') (JStr txt))"

text \<open>
  The \<^verbatim>\<open>try\<close> block of the branch for a response that is not ok. It has no normal exit:
  either \<^verbatim>\<open>JSON.parse\<close> throws or the block throws its own \<^verbatim>\<open>new Error(msg)\<close>.
  \<^verbatim>\<open>JSON.parse\<close> is the parameter \<open>parse\<close>, \<open>None\<close> where it throws.
\<close>

definition error_try :: "(string \<Rightarrow> jsval option) \<Rightarrow> string \<Rightarrow> error" where
  "error_try parse txt =
     (case parse txt of
        None \<Rightarrow> SyntaxError
      | Some j \<Rightarrow> Error (error_message j txt))"

text \<open>
  The \<^verbatim>\<open>catch\<close> clause of that block. It binds no variable: whatever was thrown in the
  block, the clause throws \<^verbatim>\<open>new Error(text || `HTTP ${res.status}`)\<close>.
\<close>

definition error_catch :: "response \<Rightarrow> error \<Rightarrow> error" where
  "error_catch res thrown =
     Error (JStr (if body res \<noteq> [] then body res else ''HTTP '' @ show_nat (status res)))"

definition apiJson :: "(string \<Rightarrow> jsval option) \<Rightarrow> response \<Rightarrow> error + jsval" where
  "apiJson parse res =
     (if \<not> ok res then Inl (error_catch res (error_try parse (body res)))
      else if body res = [] then Inr (JObj [])
      else (case parse (body res) of None \<Rightarrow> Inl SyntaxError | Some j \<Rightarrow> Inr j))"

text \<open>\<^verbatim>\<open>listKeywords\<close> on the value \<^verbatim>\<open>r\<close> that \<^verbatim>\<open>apiJson('/keywords')\<close> resolved to.\<close>

definition listKeywords :: "jsval \<Rightarrow> error + jsval list" where
  "listKeywords r =
     (if isArray r then Inr (elements r)
      else if truthy r then
        (case get_prop r ''keywords'' of
           Inl e \<Rightarrow> Inl e
         | Inr ks \<Rightarrow> if isArray ks then Inr (elements ks) else Inr [])
      else Inr [])"

section \<open>The merged comparison table\<close>

text \<open>
  A row of the chart data is one JavaScript object: the property \<^verbatim>\<open>date\<close> holds the label
  of the day, and a property named after a keyword holds that keyword's median. A row
  is modelled by its own properties; where a name has none it is \<open>None\<close>. What a read
  finds further up, on the prototype of the object, is not part of the row.
\<close>

datatype cell = Label string | Median jsval

type_synonym row = "string \<rightharpoonup> cell"

text \<open>
  \<^verbatim>\<open>{ date: `${dd}/${mm}/${yy}` }\<close>; the label is computed by the \<^verbatim>\<open>Date\<close> library from the
  timestamp and is the parameter \<open>label\<close>.
\<close>

definition new_row :: "(string \<Rightarrow> string) \<Rightarrow> string \<Rightarrow> row" where
  "new_row label ts = [''date'' \<mapsto> Label (label ts)]"

text \<open>
  \<^verbatim>\<open>byTs\<close> is a \<^verbatim>\<open>Map\<close> from timestamp strings to rows, which keeps its keys in the order
  of their first insertion: a list of pairs with distinct first components.
\<close>

definition has_ts :: "string \<Rightarrow> (string \<times> row) list \<Rightarrow> bool" where
  "has_ts ts m = (ts \<in> set (map fst m))"

text \<open>
  \<^verbatim>\<open>r[kw] = v\<close> on a row, and \<^verbatim>\<open>byTs.get(ts)[kw] = v\<close>. An assignment to the name
  \<^verbatim>\<open>__proto__\<close> goes to the setter of the prototype and writes no property of the row.
\<close>

definition set_prop :: "string \<Rightarrow> cell \<Rightarrow> row \<Rightarrow> row" where
  "set_prop kw v r = (if kw = ''__proto__'' then r else r(kw \<mapsto> v))"

definition put_cell :: "string \<Rightarrow> string \<Rightarrow> cell \<Rightarrow> (string \<times> row) list \<Rightarrow> (string \<times> row) list" where
  "put_cell ts kw v m = map (\<lambda>(t, r). if t = ts then (t, set_prop kw v r) else (t, r)) m"

text \<open>The body of the inner loop, for one point \<open>p\<close> of the series of \<open>kw\<close>.\<close>

definition add_point :: "(string \<Rightarrow> string) \<Rightarrow> string \<Rightarrow> (string \<times> row) list \<Rightarrow> point \<Rightarrow> (string \<times> row) list" where
  "add_point label kw m p =
     (let ts = scraped_at p;
          m' = (if \<not> has_ts ts m then m @ [(ts, new_row label ts)] else m)
      in put_cell ts kw (Median (mediana p)) m')"

text \<open>The body of the outer loop, for one reply \<open>s\<close>; the column is named \<^verbatim>\<open>s.keyword\<close>.\<close>

definition add_series :: "(string \<Rightarrow> string) \<Rightarrow> (string \<times> row) list \<Rightarrow> series_response \<Rightarrow> (string \<times> row) list" where
  "add_series label m s = foldl (add_point label (keyword s)) m (series_points s)"

definition byTs :: "(string \<Rightarrow> string) \<Rightarrow> series_response list \<Rightarrow> (string \<times> row) list" where
  "byTs label seriesList = foldl (add_series label) [] seriesList"

text \<open>\<^verbatim>\<open>Array.from(byTs.entries()).sort((a, b) => new Date(a[0]).getTime() - new Date(b[0]).getTime())\<close>.\<close>

definition entries :: "(string \<Rightarrow> int option) \<Rightarrow> (string \<Rightarrow> string) \<Rightarrow> series_response list \<Rightarrow> (string \<times> row) list" where
  "entries getTime label seriesList =
     js_sort (\<lambda>a b. time_diff getTime (fst a) (fst b)) (byTs label seriesList)"

text \<open>\<^verbatim>\<open>.map(([, row]) => row)\<close>: the value handed to the chart.\<close>

definition merged :: "(string \<Rightarrow> int option) \<Rightarrow> (string \<Rightarrow> string) \<Rightarrow> series_response list \<Rightarrow> row list" where
  "merged getTime label seriesList = map snd (entries getTime label seriesList)"

text \<open>
  For the statements: the points of all replies in the order the loops visit them, each
  with the keyword of its reply, and the cell that the last write to a row leaves under
  a property name.
\<close>

definition tagged :: "series_response list \<Rightarrow> (string \<times> point) list" where
  "tagged seriesList = concat (map (\<lambda>s. map (\<lambda>p. (keyword s, p)) (series_points s)) seriesList)"

definition cell_at :: "(string \<Rightarrow> string) \<Rightarrow> (string \<times> point) list \<Rightarrow> string \<Rightarrow> string \<Rightarrow> cell option" where
  "cell_at label ps ts k =
     (let qs = filter (\<lambda>(kw, p). kw = k \<and> kw \<noteq> ''__proto__'' \<and> scraped_at p = ts) ps
      in if qs = [] then new_row label ts k
         else Some (Median (mediana (snd (last qs)))))"

text \<open>One step of the two loops on a tagged point, and the timestamps of all replies.\<close>

definition step :: "(string \<Rightarrow> string) \<Rightarrow> (string \<times> row) list \<Rightarrow> string \<times> point \<Rightarrow> (string \<times> row) list" where
  "step label m kp = add_point label (fst kp) m (snd kp)"

definition timestamps :: "series_response list \<Rightarrow> string set" where
  "timestamps seriesList = (\<Union>s \<in> set seriesList. scraped_at ` set (series_points s))"

section \<open>The dashboard\<close>

text \<open>
  A numeric property of a reply as the front end may find it: not there, \<^verbatim>\<open>null\<close>, or a
  number. The declared type says number; the back end has no number to send for a run
  without listings.
\<close>

datatype field = Undefined | Null | Val jsnum

text \<open>\<^verbatim>\<open>Number(x)\<close>, the conversion \<^verbatim>\<open>Math.round\<close> applies to its argument.\<close>

fun to_number :: "field \<Rightarrow> jsnum" where
  "to_number Undefined = NaN"
| "to_number Null = Num 0"
| "to_number (Val x) = x"

text \<open>\<^verbatim>\<open>Math.round\<close>: the nearest integer, a half rounding up.\<close>

fun math_round :: "jsnum \<Rightarrow> jsnum" where
  "math_round (Num r) = Num (of_int \<lfloor>r + 1 / 2\<rfloor>)"
| "math_round x = x"

text \<open>\<^verbatim>\<open>x != null\<close>.\<close>

fun not_nullish :: "field \<Rightarrow> bool" where
  "not_nullish (Val x) = True"
| "not_nullish x = False"

record band =
  band_from :: field
  band_to :: field

text \<open>
  \<^verbatim>\<open>KeywordStatsResponse\<close>, with the properties the front end reads. \<open>normal\<close> is
  \<^verbatim>\<open>price_ranges.normal\<close>, \<open>None\<close> where the band is missing; the objects \<^verbatim>\<open>stats\<close> and
  \<^verbatim>\<open>price_ranges\<close> themselves are taken to be there.
\<close>

record stats_response =
  stats_keyword :: string
  stats_scraped_at :: string
  stats_n :: field
  stats_mediana :: field
  stats_q1 :: field
  stats_q2 :: field
  stats_q3 :: field
  normal :: "band option"

text \<open>
  The text of a price range: \<open>Range a b\<close> is the template with the two numbers \<open>a\<close> and
  \<open>b\<close>, each followed by the euro sign; \<open>Dash\<close> is the placeholder, a long dash.
\<close>

datatype range_text = Range jsnum jsnum | Dash

text \<open>\<^verbatim>\<open>ComparisonRow\<close>.\<close>

record comparison_row =
  row_keyword :: string
  lastAnalysis :: string
  row_median :: field
  row_q1 :: field
  row_q2 :: field
  row_q3 :: field
  normalRange :: range_text

text \<open>
  The callback of \<^verbatim>\<open>stats.map\<close> in \<^verbatim>\<open>loadDashboard\<close>. Reading \<^verbatim>\<open>.from\<close> of a missing band
  throws a TypeError; \<open>formatDate\<close> is the function of that name, a parameter here.
\<close>

definition dashboard_row :: "(string \<Rightarrow> string) \<Rightarrow> stats_response \<Rightarrow> error + comparison_row" where
  "dashboard_row formatDate s =
     (case normal s of
        None \<Rightarrow> Inl TypeError
      | Some b \<Rightarrow>
          Inr \<lparr>row_keyword = stats_keyword s,
               lastAnalysis = formatDate (stats_scraped_at s),
               row_median = stats_mediana s,
               row_q1 = stats_q1 s,
               row_q2 = stats_q2 s,
               row_q3 = stats_q3 s,
               normalRange = Range (math_round (to_number (band_from b)))
                                   (math_round (to_number (band_to b)))\<rparr>)"

text \<open>
  The range in \<^verbatim>\<open>ProductDetailPanel\<close>, from \<^verbatim>\<open>stats?.stats?.q1\<close> and \<^verbatim>\<open>stats?.stats?.q3\<close>;
  the state \<^verbatim>\<open>stats\<close> is \<open>None\<close> until a reply has arrived.
\<close>

definition detail_range :: "stats_response option \<Rightarrow> range_text" where
  "detail_range st =
     (let a = (case st of None \<Rightarrow> Undefined | Some s \<Rightarrow> stats_q1 s);
          b = (case st of None \<Rightarrow> Undefined | Some s \<Rightarrow> stats_q3 s)
      in if not_nullish a \<and> not_nullish b
         then Range (math_round (to_number a)) (math_round (to_number b))
         else Dash)"

subsection \<open>Loading the dashboard\<close>

text \<open>The requests the front end sends, by endpoint and keyword.\<close>

datatype request = GetKeywords | GetStats string | GetSeries string

text \<open>
  The back end as the front end sees it: what \<^verbatim>\<open>listKeywords()\<close>, \<^verbatim>\<open>getKeywordStats(kw)\<close>
  and \<^verbatim>\<open>getKeywordSeries(kw)\<close> settle to.
\<close>

record backend =
  keywords_reply :: "error + string list"
  stats_reply :: "string \<Rightarrow> error + stats_response"
  series_reply :: "string \<Rightarrow> error + series_response"

text \<open>
  The state of \<^verbatim>\<open>App\<close> that \<^verbatim>\<open>loadDashboard\<close> writes. \<open>error\<close> keeps what was thrown; the
  component shows its message.
\<close>

record dashboard =
  loading :: bool
  error :: "error option"
  tableRows :: "comparison_row list"
  priceChangeByKw :: "string \<rightharpoonup> jsnum"

text \<open>
  Results in list order, or the first failure. For \<^verbatim>\<open>Promise.all\<close> the failure that
  rejects is the one that arrives first; the model takes the first of the list.
\<close>

fun all_ok :: "(error + 'a) list \<Rightarrow> error + 'a list" where
  "all_ok [] = Inr []"
| "all_ok (Inl e # rs) = Inl e"
| "all_ok (Inr x # rs) = (case all_ok rs of Inl e \<Rightarrow> Inl e | Inr xs \<Rightarrow> Inr (x # xs))"

text \<open>
  \<^verbatim>\<open>loadPriceChangesForCards\<close>: one series request for each keyword, all sent; a keyword
  whose request failed leaves no entry in the patch.
\<close>

definition card_patch ::
  "js_lib \<Rightarrow> (string \<Rightarrow> int option) \<Rightarrow> backend \<Rightarrow> string list \<Rightarrow> (string \<rightharpoonup> jsnum)" where
  "card_patch lib getTime be keywords =
     foldl (\<lambda>patch kw.
              case series_reply be kw of
                Inl e \<Rightarrow> patch
              | Inr ser \<Rightarrow> patch(kw \<mapsto> price_change lib getTime (series_points ser)))
           Map.empty keywords"

definition loadPriceChangesForCards ::
  "js_lib \<Rightarrow> (string \<Rightarrow> int option) \<Rightarrow> backend \<Rightarrow> string list \<Rightarrow> dashboard
   \<Rightarrow> request list \<times> dashboard" where
  "loadPriceChangesForCards lib getTime be keywords st =
     (map GetSeries keywords,
      st\<lparr>priceChangeByKw := priceChangeByKw st ++ card_patch lib getTime be keywords\<rparr>)"


text \<open>
  \<^verbatim>\<open>loadDashboard\<close>: the requests it sends, in order, and the state it leaves. Every
  exit passes the \<^verbatim>\<open>finally\<close> clause, which clears \<^verbatim>\<open>loading\<close>.
\<close>

definition loadDashboard ::
  "js_lib \<Rightarrow> (string \<Rightarrow> int option) \<Rightarrow> (string \<Rightarrow> string) \<Rightarrow> backend \<Rightarrow> dashboard
   \<Rightarrow> request list \<times> dashboard" where
  "loadDashboard lib getTime formatDate be st0 =
     (let st = st0\<lparr>loading := True, error := None\<rparr> in
      case keywords_reply be of
        Inl e \<Rightarrow> ([GetKeywords], st\<lparr>error := Some e, loading := False\<rparr>)
      | Inr kws \<Rightarrow>
          if length kws = 0
          then ([GetKeywords], st\<lparr>tableRows := [], priceChangeByKw := Map.empty, loading := False\<rparr>)
          else
            let asked = GetKeywords # map GetStats (take 25 kws) in
            (case all_ok (map (stats_reply be) (take 25 kws)) of
               Inl e \<Rightarrow> (asked, st\<lparr>error := Some e, loading := False\<rparr>)
             | Inr stats \<Rightarrow>
                 (case all_ok (map (dashboard_row formatDate) stats) of
                    Inl e \<Rightarrow> (asked, st\<lparr>error := Some e, loading := False\<rparr>)
                  | Inr mapped \<Rightarrow>
                      let top4 = map row_keyword (take 4 mapped);
                          (more, st') = loadPriceChangesForCards lib getTime be top4
                                          (st\<lparr>tableRows := mapped\<rparr>)
                      in (asked @ more, st'\<lparr>loading := False\<rparr>))))"

text \<open>
  For the statements: the keywords whose series \<^verbatim>\<open>loadDashboard\<close> asks for, which are the
  keywords of the first four stats replies when every stats request and every row
  succeeded, and none otherwise.
\<close>

definition cards_for :: "(string \<Rightarrow> string) \<Rightarrow> backend \<Rightarrow> string list \<Rightarrow> string list" where
  "cards_for formatDate be kws =
     (case all_ok (map (stats_reply be) (take 25 kws)) of
        Inl e \<Rightarrow> []
      | Inr stats \<Rightarrow>
          (case all_ok (map (dashboard_row formatDate) stats) of
             Inl e \<Rightarrow> []
           | Inr mapped \<Rightarrow> map stats_keyword (take 4 stats)))"

section \<open>The search form\<close>

text \<open>
  White space of \<^verbatim>\<open>String.prototype.trim\<close> within ASCII: tab, line feed, vertical tab,
  form feed, carriage return, space.
\<close>

definition is_space :: "char \<Rightarrow> bool" where
  "is_space c = (c \<in> set [CHR 0x09, CHR 0x0A, CHR 0x0B, CHR 0x0C, CHR 0x0D, CHR 0x20])"

definition trim :: "string \<Rightarrow> string" where
  "trim s = rev (dropWhile is_space (rev (dropWhile is_space s)))"

text \<open>
  \<^verbatim>\<open>toNumOrUndef\<close>. \<^verbatim>\<open>Number(s)\<close> on a string is the parameter \<open>number\<close>; \<open>None\<close> is
  \<^verbatim>\<open>undefined\<close>.
\<close>

definition toNumOrUndef :: "(string \<Rightarrow> jsnum) \<Rightarrow> string \<Rightarrow> jsnum option" where
  "toNumOrUndef number v =
     (let s = trim v in
      if s = [] then None
      else let n = number s in if isFinite n then Some n else None)"

datatype filter_mode = Soft | Strict | Off

text \<open>\<^verbatim>\<open>ScrapeOpts\<close> as \<^verbatim>\<open>handleSearch\<close> fills it: both price bounds may be \<^verbatim>\<open>undefined\<close>.\<close>

record scrape_opts =
  min_price :: "jsnum option"
  max_price :: "jsnum option"
  filter_mode :: filter_mode
  exclude_bad_text :: bool

text \<open>The state of \<^verbatim>\<open>SearchBar\<close> that \<^verbatim>\<open>handleSearch\<close> reads.\<close>

record search_form =
  searchTerm :: string
  minPrice :: string
  maxPrice :: string
  filterMode :: filter_mode
  excludeBadText :: bool

text \<open>
  \<^verbatim>\<open>handleSearch\<close> up to its call \<^verbatim>\<open>props.onAnalyze(kw, opts)\<close>: the arguments of that call,
  or \<open>None\<close> when the keyword is blank and the handler returns at once.
\<close>

definition handleSearch :: "(string \<Rightarrow> jsnum) \<Rightarrow> search_form \<Rightarrow> (string \<times> scrape_opts) option" where
  "handleSearch number form =
     (let kw = trim (searchTerm form) in
      if kw = [] then None
      else Some (kw, \<lparr>min_price = toNumOrUndef number (minPrice form),
                      max_price = toNumOrUndef number (maxPrice form),
                      filter_mode = filterMode form,
                      exclude_bad_text = excludeBadText form\<rparr>))"

text \<open>
  The body of the request of \<^verbatim>\<open>scrapeKeyword\<close>, \<^verbatim>\<open>JSON.stringify(opts)\<close>, as the list of
  its members: a property that is \<^verbatim>\<open>undefined\<close> is left out, and a number that is not
  finite is written as \<^verbatim>\<open>null\<close>.
\<close>

definition json_number :: "jsnum \<Rightarrow> jsval" where
  "json_number x = (if isFinite x then JNum x else JNull)"

fun mode_name :: "filter_mode \<Rightarrow> string" where
  "mode_name Soft = ''soft''"
| "mode_name Strict = ''strict''"
| "mode_name Off = ''off''"

definition scrape_body :: "scrape_opts \<Rightarrow> (string \<times> jsval) list" where
  "scrape_body opts =
     (case min_price opts of None \<Rightarrow> [] | Some x \<Rightarrow> [(''min_price'', json_number x)])
     @ (case max_price opts of None \<Rightarrow> [] | Some x \<Rightarrow> [(''max_price'', json_number x)])
     @ [(''filter_mode'', JStr (mode_name (filter_mode opts))),
        (''exclude_bad_text'', JBool (exclude_bad_text opts))]"

section \<open>The scheduled tasks\<close>

text \<open>
  The Windows task scheduler as \<^verbatim>\<open>install_daily_task.ps1\<close> uses it: tasks by name, each
  with its schedule (\<^verbatim>\<open>/SC DAILY /ST time\<close> or \<^verbatim>\<open>/SC ONLOGON\<close>), the command it runs
  (\<^verbatim>\<open>/TR\<close>) and its run level (\<^verbatim>\<open>/RL\<close>).
\<close>

datatype schedule = DAILY string | ONLOGON

record task =
  task_schedule :: schedule
  task_run :: string
  task_level :: string

type_synonym scheduler = "string \<rightharpoonup> task"

text \<open>
  \<^verbatim>\<open>schtasks /Create /F /TN tn ...\<close>: with \<^verbatim>\<open>/F\<close> the task is created, and a task of that
  name that is already there is replaced. The calls are taken to be accepted by
  \<^verbatim>\<open>schtasks\<close>; a call it rejects (a time it cannot read, missing rights) is outside
  this model.
\<close>

definition schtasks_create :: "string \<Rightarrow> schedule \<Rightarrow> string \<Rightarrow> string \<Rightarrow> scheduler \<Rightarrow> scheduler" where
  "schtasks_create tn sc tr rl sched = sched(tn \<mapsto> \<lparr>task_schedule = sc, task_run = tr, task_level = rl\<rparr>)"

text \<open>
  The machine the script runs on: the current directory (\<^verbatim>\<open>Resolve-Path "."\<close>), the
  cmdlets \<^verbatim>\<open>Join-Path\<close> and \<^verbatim>\<open>Test-Path\<close>, and the scheduler.
\<close>

record host =
  cwd :: string
  join_path :: "string \<Rightarrow> string \<Rightarrow> string"
  test_path :: "string \<Rightarrow> bool"
  tasks :: scheduler

text \<open>The parameters of the script.\<close>

record install_args =
  Time :: string
  Mode :: string
  TaskBase :: string
  ProjectRoot :: string

text \<open>\<^verbatim>\<open>[string]::IsNullOrWhiteSpace\<close>.\<close>

definition is_blank :: "string \<Rightarrow> bool" where
  "is_blank s = list_all is_space s"

definition project_root :: "host \<Rightarrow> install_args \<Rightarrow> string" where
  "project_root h a = (if is_blank (ProjectRoot a) then cwd h else ProjectRoot a)"

definition runner :: "host \<Rightarrow> install_args \<Rightarrow> string" where
  "runner h a = join_path h (project_root h a) (''scripts'' @ [CHR 0x5C] @ ''run_daily_scrape.ps1'')"

definition taskCmd :: "host \<Rightarrow> install_args \<Rightarrow> string" where
  "taskCmd h a =
     ''powershell.exe -NoProfile -ExecutionPolicy Bypass -File '' @ quoted (runner h a)
     @ '' -Mode '' @ Mode a @ '' -ProjectRoot '' @ quoted (project_root h a)"

definition taskDaily :: "install_args \<Rightarrow> string" where
  "taskDaily a = TaskBase a @ '' (Daily)''"

definition taskLogon :: "install_args \<Rightarrow> string" where
  "taskLogon a = TaskBase a @ '' (OnLogon)''"

text \<open>
  The script: it throws when the runner is not there, and otherwise creates the two
  tasks. The two \<^verbatim>\<open>schtasks /Query\<close> that follow read the scheduler and change nothing.
\<close>

definition install_daily_task :: "host \<Rightarrow> install_args \<Rightarrow> string + host" where
  "install_daily_task h a =
     (if \<not> test_path h (runner h a) then Inl (''No existe: '' @ runner h a)
      else
        let t1 = schtasks_create (taskDaily a) (DAILY (Time a)) (taskCmd h a) ''LIMITED'' (tasks h);
            t2 = schtasks_create (taskLogon a) ONLOGON (taskCmd h a) ''LIMITED'' t1
        in Inr (h\<lparr>tasks := t2\<rparr>))"

subsection \<open>The runner\<close>

text \<open>
  \<^verbatim>\<open>run_daily_scrape.ps1\<close>, the file that the command of both tasks names after \<^verbatim>\<open>-File\<close>,
  with its parameters \<^verbatim>\<open>-Mode\<close> and \<^verbatim>\<open>-ProjectRoot\<close>. Its outcome is the process it starts,
  whose exit code it passes on, or the exit code 99 of its \<^verbatim>\<open>catch\<close> block. The lines it
  writes to the log are left out.
\<close>

datatype launch = Launch string "string list" | Exit99

text \<open>
  \<^verbatim>\<open>-eq\<close> on strings ignores the case of letters; the model does so for the letters of
  ASCII.
\<close>

definition lower :: "char \<Rightarrow> char" where
  "lower c =
     (case map_of (zip ''ABCDEFGHIJKLMNOPQRSTUVWXYZ'' ''abcdefghijklmnopqrstuvwxyz'') c of
        None \<Rightarrow> c
      | Some d \<Rightarrow> d)"

definition ps_eq :: "string \<Rightarrow> string \<Rightarrow> bool" where
  "ps_eq s t = (map lower s = map lower t)"

text \<open>
  \<open>python\<close> is what \<^verbatim>\<open>Get-Command python\<close> finds on the path: the source of the command,
  or nothing.
\<close>

definition run_daily_scrape :: "host \<Rightarrow> string option \<Rightarrow> string \<Rightarrow> string \<Rightarrow> launch" where
  "run_daily_scrape h python mode projectRoot =
     (let root = (if is_blank projectRoot then cwd h else projectRoot) in
      if ps_eq mode ''exe'' then
        (let exePath = join_path h root ''valyro.exe'' in
         if \<not> test_path h exePath then Exit99
         else Launch exePath [''--daily-scrape'', ''--headless''])
      else
        (let venvPy = join_path h root
                        (''.venv'' @ [CHR 0x5C] @ ''Scripts'' @ [CHR 0x5C] @ ''python.exe'') in
         if test_path h venvPy then Launch venvPy [''-m'', ''scripts.daily_scrape'']
         else (case python of
                 None \<Rightarrow> Exit99
               | Some src \<Rightarrow> Launch src [''-m'', ''scripts.daily_scrape''])))"

section \<open>Sample data\<close>

text \<open>
  A clock and a calendar for the examples: three timestamps as the back end writes
  them, with their times in milliseconds and their day labels. Every other string is an
  Invalid Date.
\<close>

definition sample_clock :: "string \<Rightarrow> int option" where
  "sample_clock = map_of
     [(''2024-01-01T09:30:00'', 1704101400000),
      (''2024-01-02T09:30:00'', 1704187800000),
      (''2024-01-03T09:30:00'', 1704274200000)]"

definition sample_label :: "string \<Rightarrow> string" where
  "sample_label ts =
     (case map_of
        [(''2024-01-01T09:30:00'', ''01/01/2024''),
         (''2024-01-02T09:30:00'', ''02/01/2024''),
         (''2024-01-03T09:30:00'', ''03/01/2024'')] ts of
        None \<Rightarrow> ''NaN/NaN/NaN''
      | Some d \<Rightarrow> d)"

text \<open>
  Two runs of one keyword, one run of another, two runs with the medians 0 and 50, and
  one run of a keyword named \<^verbatim>\<open>date\<close>.
\<close>

definition series_ps5 :: series_response where
  "series_ps5 = \<lparr>keyword = ''ps5'', series = Some
     [\<lparr>scraped_at = ''2024-01-01T09:30:00'', media = JNum (Num 104), mediana = JNum (Num 100)\<rparr>,
      \<lparr>scraped_at = ''2024-01-02T09:30:00'', media = JNum (Num 115), mediana = JNum (Num 110)\<rparr>]\<rparr>"

definition series_xbox :: series_response where
  "series_xbox = \<lparr>keyword = ''xbox'', series = Some
     [\<lparr>scraped_at = ''2024-01-01T09:30:00'', media = JNum (Num 52), mediana = JNum (Num 50)\<rparr>]\<rparr>"


definition series_date :: series_response where
  "series_date = \<lparr>keyword = ''date'', series = Some
     [\<lparr>scraped_at = ''2024-01-01T09:30:00'', media = JNum (Num 9), mediana = JNum (Num 8)\<rparr>]\<rparr>"

text \<open>
  A library for the examples: it rounds nothing, and it converts no string, array or
  object to a number (the examples hold numbers and \<^verbatim>\<open>null\<close> only).
\<close>

definition exact_lib :: js_lib where
  "exact_lib = \<lparr>lib_number = (\<lambda>v. NaN), lib_round = Num\<rparr>"


text \<open>An error reply of the back end, and a parser that knows it.\<close>

definition bad_keyword_body :: string where
  "bad_keyword_body =
     ''{'' @ quoted ''error'' @ '':{'' @ quoted ''message'' @ '':'' @ quoted ''Bad keyword'' @ ''}}''"

definition sample_parse :: "string \<Rightarrow> jsval option" where
  "sample_parse = map_of
     [(bad_keyword_body, JObj [(''error'', JObj [(''message'', JStr ''Bad keyword'')])])]"

text \<open>
  The latest run of a keyword when no listing was kept: once with the normal band
  missing, once with the band there and its two bounds \<^verbatim>\<open>null\<close>.
\<close>

definition empty_run_no_band :: stats_response where
  "empty_run_no_band =
     \<lparr>stats_keyword = ''ps5'', stats_scraped_at = ''2024-01-01T09:30:00'',
      stats_n = Val (Num 0), stats_mediana = Null, stats_q1 = Null, stats_q2 = Null,
      stats_q3 = Null, normal = None\<rparr>"

definition empty_run_null_band :: stats_response where
  "empty_run_null_band =
     \<lparr>stats_keyword = ''ps5'', stats_scraped_at = ''2024-01-01T09:30:00'',
      stats_n = Val (Num 0), stats_mediana = Null, stats_q1 = Null, stats_q2 = Null,
      stats_q3 = Null, normal = Some \<lparr>band_from = Null, band_to = Null\<rparr>\<rparr>"

definition blank_dashboard :: dashboard where
  "blank_dashboard = \<lparr>loading = False, error = None, tableRows = [], priceChangeByKw = Map.empty\<rparr>"

definition empty_run_backend :: backend where
  "empty_run_backend =
     \<lparr>keywords_reply = Inr [''ps5''],
      stats_reply = (\<lambda>kw. Inr empty_run_no_band),
      series_reply = (\<lambda>kw. Inr series_ps5)\<rparr>"


text \<open>A store with twenty-seven keywords, each with the run of the specification's scenario.\<close>

definition sample_keywords :: "string list" where
  "sample_keywords =
     [''k01'', ''k02'', ''k03'', ''k04'', ''k05'', ''k06'', ''k07'', ''k08'', ''k09'',
      ''k10'', ''k11'', ''k12'', ''k13'', ''k14'', ''k15'', ''k16'', ''k17'', ''k18'',
      ''k19'', ''k20'', ''k21'', ''k22'', ''k23'', ''k24'', ''k25'', ''k26'', ''k27'']"

definition sample_backend :: backend where
  "sample_backend =
     \<lparr>keywords_reply = Inr sample_keywords,
      stats_reply = (\<lambda>kw. Inr
        \<lparr>stats_keyword = kw, stats_scraped_at = ''2024-01-02T09:30:00'',
         stats_n = Val (Num 5), stats_mediana = Val (Num 350), stats_q1 = Val (Num 320),
         stats_q2 = Val (Num 350), stats_q3 = Val (Num 400),
         normal = Some \<lparr>band_from = Val (Num 320), band_to = Val (Num 400)\<rparr>\<rparr>),
      series_reply = (\<lambda>kw. Inr (series_ps5\<lparr>keyword := kw\<rparr>))\<rparr>"

text \<open>A machine with the project in its current directory and no task installed.\<close>

definition sample_host :: host where
  "sample_host =
     \<lparr>cwd = ''C:/Valyro'',
      join_path = (\<lambda>a b. a @ [CHR 0x5C] @ b),
      test_path = (\<lambda>p. True),
      tasks = Map.empty\<rparr>"

definition install_0930 :: install_args where
  "install_0930 =
     \<lparr>Time = ''09:30'', Mode = ''python'', TaskBase = ''Valyro - Daily Scrape'', ProjectRoot = []\<rparr>"

section \<open>Properties of the sort\<close>

lemma js_insert_insort_key:
  assumes "\<forall>y \<in> set ys. parses getTime (k y)" and "parses getTime (k x)"
  shows "js_insert (\<lambda>a b. time_diff getTime (k a) (k b)) x ys
         = insort_key (\<lambda>a. time_key getTime (k a)) x ys"
  using assms
  by (induction ys) (auto simp: time_diff_def time_key_def parses_def)

lemma js_sort_sort_key:
  assumes "\<forall>y \<in> set xs. parses getTime (k y)"
  shows "js_sort (\<lambda>a b. time_diff getTime (k a) (k b)) xs
         = sort_key (\<lambda>a. time_key getTime (k a)) xs"
  using assms
proof (induction xs)
  case Nil
  then show ?case by (simp add: js_sort_def)
next
  case (Cons x xs)
  then have "js_sort (\<lambda>a b. time_diff getTime (k a) (k b)) xs
             = sort_key (\<lambda>a. time_key getTime (k a)) xs"
    by simp
  moreover have "\<forall>y \<in> set (sort_key (\<lambda>a. time_key getTime (k a)) xs). parses getTime (k y)"
    using Cons.prems by simp
  ultimately show ?case
    using Cons.prems js_insert_insort_key [of "sort_key (\<lambda>a. time_key getTime (k a)) xs" getTime k x]
    by (simp add: js_sort_def)
qed

lemma sort_series_sort_key:
  assumes "\<forall>p \<in> set pts. parses getTime (scraped_at p)"
  shows "sort_series getTime pts = sort_key (\<lambda>p. time_key getTime (scraped_at p)) pts"
  unfolding sort_series_def using assms by (rule js_sort_sort_key)




section \<open>The series of a keyword, sorted\<close>

text \<open>
  Claim C5. Let the store hold, for a keyword, points whose timestamps parse and no two
  of which have the same time, and let it return them in any order. Then the series that
  the front end works on is the stable ascending sort by time of those points: it is
  sorted, it holds exactly the points, and it is the same whatever the order was. The
  chart data of the panel are the labels, medians and means of that sorted series, and
  the percentage change takes the same path whatever the order was.
\<close>

theorem sort_series_sorted_invariant:
  assumes valid: "\<forall>p \<in> set pts. parses getTime (scraped_at p)"
    and dist: "distinct (map (\<lambda>p. time_key getTime (scraped_at p)) pts)"
    and perm: "mset pts' = mset pts"
  shows "sort_series getTime pts' = sort_key (\<lambda>p. time_key getTime (scraped_at p)) pts
       \<and> sorted (map (\<lambda>p. time_key getTime (scraped_at p)) (sort_series getTime pts'))
       \<and> mset (sort_series getTime pts') = mset pts
       \<and> sort_series getTime pts' = sort_series getTime pts
       \<and> seriesChartData getTime formatDate (Some \<lparr>keyword = kw, series = Some pts'\<rparr>)
           = map (\<lambda>p. (formatDate (scraped_at p), mediana p, media p))
               (sort_key (\<lambda>p. time_key getTime (scraped_at p)) pts)
       \<and> change_path conv getTime pts' = change_path conv getTime pts"
proof -
  let ?f = "\<lambda>p. time_key getTime (scraped_at p)"
  have s: "sort_series getTime pts = sort_key ?f pts"
    using valid by (rule sort_series_sort_key)
  have "set pts' = set pts" using perm by (rule mset_eq_setD)
  then have "\<forall>p \<in> set pts'. parses getTime (scraped_at p)" using valid by simp
  then have s': "sort_series getTime pts' = sort_key ?f pts'"
    by (rule sort_series_sort_key)
  have inj: "inj_on ?f (set pts')"
    using dist \<open>set pts' = set pts\<close> by (simp add: distinct_map)
  have e: "sort_key ?f pts' = sort_key ?f pts"
    by (rule sort_key_inj_key_eq) (simp_all add: perm inj)
  have c: "change_path conv getTime pts' = change_path conv getTime pts"
    by (simp add: change_path_def s s' e)
  show ?thesis
    using c by (simp add: s s' e seriesChartData_def series_points_def)
qed

text \<open>The theorem at three points that the store returns latest first, with one swap.\<close>

theorem sort_series_sorted_invariant_witness:
  "sort_series sample_clock
     [\<lparr>scraped_at = ''2024-01-03T09:30:00'', media = JNum (Num 99), mediana = JNum (Num 99)\<rparr>,
      \<lparr>scraped_at = ''2024-01-01T09:30:00'', media = JNum (Num 104), mediana = JNum (Num 100)\<rparr>,
      \<lparr>scraped_at = ''2024-01-02T09:30:00'', media = JNum (Num 115), mediana = JNum (Num 110)\<rparr>]
   = [\<lparr>scraped_at = ''2024-01-01T09:30:00'', media = JNum (Num 104), mediana = JNum (Num 100)\<rparr>,
      \<lparr>scraped_at = ''2024-01-02T09:30:00'', media = JNum (Num 115), mediana = JNum (Num 110)\<rparr>,
      \<lparr>scraped_at = ''2024-01-03T09:30:00'', media = JNum (Num 99), mediana = JNum (Num 99)\<rparr>]"
  using sort_series_sorted_invariant [where getTime = sample_clock
     and pts = "[\<lparr>scraped_at = ''2024-01-01T09:30:00'', media = JNum (Num 104), mediana = JNum (Num 100)\<rparr>,
      \<lparr>scraped_at = ''2024-01-02T09:30:00'', media = JNum (Num 115), mediana = JNum (Num 110)\<rparr>,
      \<lparr>scraped_at = ''2024-01-03T09:30:00'', media = JNum (Num 99), mediana = JNum (Num 99)\<rparr>]"
     and pts' = "[\<lparr>scraped_at = ''2024-01-03T09:30:00'', media = JNum (Num 99), mediana = JNum (Num 99)\<rparr>,
      \<lparr>scraped_at = ''2024-01-01T09:30:00'', media = JNum (Num 104), mediana = JNum (Num 100)\<rparr>,
      \<lparr>scraped_at = ''2024-01-02T09:30:00'', media = JNum (Num 115), mediana = JNum (Num 110)\<rparr>]"]
  by (simp add: sample_clock_def parses_def time_key_def)

section \<open>The percentage change of a card\<close>







section \<open>The API client: shapes of the keyword list\<close>

text \<open>
  Claim C9. Whatever value the keywords endpoint delivered, \<^verbatim>\<open>listKeywords\<close> returns
  and does not throw: the value's elements when it is an array, the elements of its
  \<^verbatim>\<open>keywords\<close> property when it is an object whose \<^verbatim>\<open>keywords\<close> is an array, and the empty
  list for every other shape.
\<close>

theorem listKeywords_total:
  "listKeywords r =
     Inr (case r of
            JArr xs \<Rightarrow> xs
          | JObj kvs \<Rightarrow> (case map_of kvs ''keywords'' of Some (JArr xs) \<Rightarrow> xs | _ \<Rightarrow> [])
          | _ \<Rightarrow> [])"
proof (cases r)
  case (JArr xs)
  then show ?thesis by (simp add: listKeywords_def)
next
  case (JObj kvs)
  show ?thesis
  proof (cases "map_of kvs ''keywords''")
    case None
    with JObj show ?thesis by (simp add: listKeywords_def)
  next
    case (Some ks)
    with JObj show ?thesis by (cases ks) (simp_all add: listKeywords_def)
  qed
next
  case (JNum x)
  then show ?thesis by (simp add: listKeywords_def)
qed (simp_all add: listKeywords_def)

text \<open>
  Claim C4, at a reply with status 400 whose body is a JSON object with a message under
  \<^verbatim>\<open>error.message\<close>. The \<^verbatim>\<open>try\<close> block finds the message and throws an error with it; the
  \<^verbatim>\<open>catch\<close> clause of the same block takes that error and throws another, with the text of
  the body, and this is the one the caller gets. A reply with a status that is ok and an
  empty body resolves to the empty object.
\<close>

theorem apiJson_error_message_lost:
  "apiJson sample_parse \<lparr>ok = False, status = 400, body = bad_keyword_body\<rparr>
     = Inl (Error (JStr bad_keyword_body))
   \<and> error_try sample_parse bad_keyword_body = Error (JStr ''Bad keyword'')
   \<and> apiJson sample_parse \<lparr>ok = True, status = 204, body = []\<rparr> = Inr (JObj [])"
  by (simp add: apiJson_def error_catch_def error_try_def error_message_def opt_prop_def
        coalesce_def sample_parse_def bad_keyword_body_def quoted_def)

text \<open>For every reply that is not ok, whatever its body parses to.\<close>

lemma apiJson_not_ok:
  "\<not> ok res \<Longrightarrow>
   apiJson parse res
     = Inl (Error (JStr (if body res \<noteq> [] then body res else ''HTTP '' @ show_nat (status res))))"
  by (simp add: apiJson_def error_catch_def)

section \<open>The merged comparison table\<close>

lemma byTs_tagged: "foldl (add_series label) m sl = foldl (step label) m (tagged sl)"
proof (induction sl arbitrary: m)
  case Nil
  then show ?case by (simp add: tagged_def)
next
  case (Cons s sl)
  have "foldl (add_point label (keyword s)) m ps
        = foldl (step label) m (map (\<lambda>p. (keyword s, p)) ps)" for ps
    by (induction ps arbitrary: m) (simp_all add: step_def)
  then show ?case using Cons.IH by (simp add: tagged_def add_series_def)
qed

lemma map_fst_put_cell: "map fst (put_cell ts kw v m) = map fst m"
  by (induction m) (auto simp: put_cell_def)

lemma map_of_put_cell:
  "map_of (put_cell ts kw v m) t =
     (if t = ts then map_option (set_prop kw v) (map_of m t) else map_of m t)"
  by (induction m) (auto simp: put_cell_def)

lemma map_fst_add_point:
  "map fst (add_point label kw m p) =
     (if scraped_at p \<in> set (map fst m) then map fst m else map fst m @ [scraped_at p])"
  by (simp add: add_point_def Let_def has_ts_def map_fst_put_cell)

lemma map_of_add_point:
  "map_of (add_point label kw m p) t =
     (if t = scraped_at p
      then Some (set_prop kw (Median (mediana p))
                   (case map_of m t of None \<Rightarrow> new_row label t | Some r \<Rightarrow> r))
      else map_of m t)"
proof (cases "scraped_at p \<in> set (map fst m)")
  case True
  then obtain r where "map_of m (scraped_at p) = Some r"
    by (metis list.set_map map_of_eq_None_iff not_Some_eq)
  with True show ?thesis
    by (simp add: add_point_def Let_def has_ts_def map_of_put_cell)
next
  case False
  then have "map_of m (scraped_at p) = None"
    by (simp add: map_of_eq_None_iff)
  with False show ?thesis
    by (auto simp: add_point_def Let_def has_ts_def map_of_put_cell map_add_def
             split: option.splits)
qed

lemma fold_step_inv:
  "distinct (map fst (foldl (step label) [] ps))
   \<and> set (map fst (foldl (step label) [] ps)) = (\<lambda>kp. scraped_at (snd kp)) ` set ps
   \<and> (\<forall>ts \<in> (\<lambda>kp. scraped_at (snd kp)) ` set ps.
        map_of (foldl (step label) [] ps) ts = Some (cell_at label ps ts))"
proof (induction ps rule: rev_induct)
  case Nil
  then show ?case by simp
next
  case (snoc kp ps)
  let ?m = "foldl (step label) [] ps"
  obtain kw p where kp: "kp = (kw, p)" by (cases kp)
  have d: "distinct (map fst ?m)"
    and s: "set (map fst ?m) = (\<lambda>kp. scraped_at (snd kp)) ` set ps"
    and c: "\<And>ts. ts \<in> (\<lambda>kp. scraped_at (snd kp)) ` set ps \<Longrightarrow> map_of ?m ts = Some (cell_at label ps ts)"
    using snoc.IH by auto
  have m': "foldl (step label) [] (ps @ [kp]) = add_point label kw ?m p"
    by (simp add: step_def kp)
  have 1: "distinct (map fst (add_point label kw ?m p))"
    using d by (simp add: map_fst_add_point)
  have 2: "set (map fst (add_point label kw ?m p)) = (\<lambda>kp. scraped_at (snd kp)) ` set (ps @ [kp])"
    using s by (auto simp: map_fst_add_point kp)
  have 3: "map_of (add_point label kw ?m p) ts = Some (cell_at label (ps @ [kp]) ts)"
    if "ts \<in> (\<lambda>kp. scraped_at (snd kp)) ` set (ps @ [kp])" for ts
  proof (cases "ts = scraped_at p")
    case True
    let ?t = "scraped_at p"
    have base: "(case map_of ?m ?t of None \<Rightarrow> new_row label ?t | Some r \<Rightarrow> r) = cell_at label ps ?t"
    proof (cases "?t \<in> (\<lambda>kp. scraped_at (snd kp)) ` set ps")
      case True
      then show ?thesis using c by simp
    next
      case False
      then have "map_of ?m ?t = None" using s by (simp add: map_of_eq_None_iff)
      moreover have "filter (\<lambda>(kw, p'). kw = k \<and> kw \<noteq> ''__proto__'' \<and> scraped_at p' = ?t) ps = []"
        for k
        using False by (force simp: filter_empty_conv)
      ultimately show ?thesis by (auto simp: cell_at_def fun_eq_iff)
    qed
    have "set_prop kw (Median (mediana p)) (cell_at label ps ?t) = cell_at label (ps @ [kp]) ?t"
      by (auto simp: cell_at_def set_prop_def kp fun_eq_iff Let_def)
    then have "map_of (add_point label kw ?m p) ?t = Some (cell_at label (ps @ [kp]) ?t)"
      using base by (simp add: map_of_add_point)
    then show ?thesis using True by simp
  next
    case False
    then have "ts \<in> (\<lambda>kp. scraped_at (snd kp)) ` set ps" using that by (auto simp: kp)
    then have "map_of ?m ts = Some (cell_at label ps ts)" by (rule c)
    moreover have "cell_at label (ps @ [kp]) ts = cell_at label ps ts"
      using False by (auto simp: cell_at_def kp fun_eq_iff)
    ultimately show ?thesis using False by (simp add: map_of_add_point)
  qed
  show ?case unfolding m' using 1 2 3 by blast
qed

lemma timestamps_tagged: "(\<lambda>kp. scraped_at (snd kp)) ` set (tagged sl) = timestamps sl"
  by (auto simp: tagged_def timestamps_def image_iff) force+

lemma byTs_inv:
  "distinct (map fst (byTs label sl))"
  "set (map fst (byTs label sl)) = timestamps sl"
  "(ts, r) \<in> set (byTs label sl) \<Longrightarrow> r = cell_at label (tagged sl) ts"
proof -
  have eq: "byTs label sl = foldl (step label) [] (tagged sl)"
    by (simp add: byTs_def byTs_tagged)
  note inv = fold_step_inv [of label "tagged sl", folded eq, unfolded timestamps_tagged]
  show d: "distinct (map fst (byTs label sl))" using inv by simp
  show s: "set (map fst (byTs label sl)) = timestamps sl" using inv by simp
  assume m: "(ts, r) \<in> set (byTs label sl)"
  then have "ts \<in> timestamps sl" using s by force
  then have "map_of (byTs label sl) ts = Some (cell_at label (tagged sl) ts)" using inv by simp
  moreover have "map_of (byTs label sl) ts = Some r" using d m by simp
  ultimately show "r = cell_at label (tagged sl) ts" by simp
qed

text \<open>
  The table for replies whose timestamps all parse: one row for each timestamp string
  that occurs, in ascending order of time, and in the row of a timestamp, under the name
  of a keyword, the median of the last point that a reply of that keyword has at that
  timestamp. Where there is no such point the property was never written, except under
  the name \<^verbatim>\<open>date\<close>, which holds the label of the day. A keyword named \<^verbatim>\<open>__proto__\<close> gets
  no property at all.
\<close>

lemma merged_rows:
  assumes valid: "\<forall>ts \<in> timestamps sl. parses getTime ts"
  shows "merged getTime label sl = map snd (entries getTime label sl)
       \<and> distinct (map fst (entries getTime label sl))
       \<and> set (map fst (entries getTime label sl)) = timestamps sl
       \<and> sorted (map (time_key getTime) (map fst (entries getTime label sl)))
       \<and> (\<forall>(ts, r) \<in> set (entries getTime label sl). \<forall>k.
            r k = (let ps = filter (\<lambda>(kw, p). kw = k \<and> scraped_at p = ts) (tagged sl)
                   in if ps \<noteq> [] \<and> k \<noteq> ''__proto__''
                      then Some (Median (mediana (snd (last ps))))
                      else if k = ''date'' then Some (Label (label ts))
                      else None))"
proof -
  let ?f = "\<lambda>e. time_key getTime (fst e)"
  have "\<forall>e \<in> set (byTs label sl). parses getTime (fst e)"
    using valid byTs_inv(2) [of label sl] by auto
  then have e: "entries getTime label sl = sort_key ?f (byTs label sl)"
    unfolding entries_def by (rule js_sort_sort_key)
  have m: "mset (entries getTime label sl) = mset (byTs label sl)" by (simp add: e)
  then have st: "set (entries getTime label sl) = set (byTs label sl)" by (rule mset_eq_setD)
  have "mset (map fst (entries getTime label sl)) = mset (map fst (byTs label sl))"
    using m by (metis mset_map)
  then have d: "distinct (map fst (entries getTime label sl))"
    using byTs_inv(1) [of label sl] by (metis mset_eq_imp_distinct_iff)
  have s: "set (map fst (entries getTime label sl)) = timestamps sl"
    using st byTs_inv(2) [of label sl] by simp
  have o: "sorted (map (time_key getTime) (map fst (entries getTime label sl)))"
    using sorted_sort_key [of ?f "byTs label sl"] by (simp add: e comp_def)
  have c: "r k = (let ps = filter (\<lambda>(kw, p). kw = k \<and> scraped_at p = ts) (tagged sl)
                   in if ps \<noteq> [] \<and> k \<noteq> ''__proto__''
                      then Some (Median (mediana (snd (last ps))))
                      else if k = ''date'' then Some (Label (label ts))
                      else None)"
    if "(ts, r) \<in> set (entries getTime label sl)" for ts r k
  proof -
    have "r = cell_at label (tagged sl) ts" using that st byTs_inv(3) by blast
    moreover have "filter (\<lambda>(kw, p). kw = k \<and> kw \<noteq> ''__proto__'' \<and> scraped_at p = ts) (tagged sl)
                   = (if k = ''__proto__'' then []
                      else filter (\<lambda>(kw, p). kw = k \<and> scraped_at p = ts) (tagged sl))"
      by (auto intro: filter_cong simp: filter_empty_conv)
    ultimately show ?thesis by (simp add: cell_at_def new_row_def Let_def)
  qed
  from c have c': "\<forall>(ts, r) \<in> set (entries getTime label sl). \<forall>k.
            r k = (let ps = filter (\<lambda>(kw, p). kw = k \<and> scraped_at p = ts) (tagged sl)
                   in if ps \<noteq> [] \<and> k \<noteq> ''__proto__''
                      then Some (Median (mediana (snd (last ps))))
                      else if k = ''date'' then Some (Label (label ts))
                      else None)"
    by blast
  have "merged getTime label sl = map snd (entries getTime label sl)" by (simp add: merged_def)
  with d s o c' show ?thesis by blast
qed

text \<open>The example of the specification: two runs of one keyword, one run of another.\<close>

lemma merged_example:
  "map (\<lambda>r. (r ''date'', r ''ps5'', r ''xbox'')) (merged sample_clock sample_label [series_ps5, series_xbox])
   = [(Some (Label ''01/01/2024''), Some (Median (JNum (Num 100))), Some (Median (JNum (Num 50)))),
      (Some (Label ''02/01/2024''), Some (Median (JNum (Num 110))), None)]"
  by (simp add: merged_def entries_def byTs_def add_series_def add_point_def put_cell_def
        has_ts_def new_row_def set_prop_def series_points_def js_sort_def time_diff_def Let_def
        series_ps5_def series_xbox_def sample_clock_def sample_label_def)

text \<open>
  Claim C2, at the requested keywords \<^verbatim>\<open>date\<close> and \<^verbatim>\<open>ps5\<close>, where \<^verbatim>\<open>date\<close> has a run at the
  first timestamp only and \<^verbatim>\<open>ps5\<close> has a run at both. The column of a keyword and the label
  of the day are properties of one object, so for the keyword \<^verbatim>\<open>date\<close> they are the same
  property: in the first row the median of \<^verbatim>\<open>date\<close> has replaced the label, and in the
  second row, where \<^verbatim>\<open>date\<close> has no point, its column holds the label and not nothing.
\<close>

theorem merged_date_keyword_collision:
  "map (\<lambda>r. (r ''date'', r ''ps5'')) (merged sample_clock sample_label [series_date, series_ps5])
   = [(Some (Median (JNum (Num 8))), Some (Median (JNum (Num 100)))),
      (Some (Label ''02/01/2024''), Some (Median (JNum (Num 110))))]"
  by (simp add: merged_def entries_def byTs_def add_series_def add_point_def put_cell_def
        has_ts_def new_row_def set_prop_def series_points_def js_sort_def time_diff_def Let_def
        series_ps5_def series_date_def sample_clock_def sample_label_def)

section \<open>The dashboard\<close>

text \<open>
  Claim C3, at the latest run of a keyword without listings. With the normal band
  missing, the row of \<^verbatim>\<open>loadDashboard\<close> throws a TypeError, and the whole load ends with
  that error and no rows. With the band there and its bounds \<^verbatim>\<open>null\<close>, the row is built
  with the range from 0 to 0. \<^verbatim>\<open>ProductDetailPanel\<close> shows the dash for both.
\<close>

theorem dashboard_row_missing_band:
  "dashboard_row sample_label empty_run_no_band = Inl TypeError
   \<and> error (snd (loadDashboard exact_lib sample_clock sample_label empty_run_backend blank_dashboard))
       = Some TypeError
   \<and> tableRows (snd (loadDashboard exact_lib sample_clock sample_label empty_run_backend blank_dashboard))
       = []
   \<and> map_sum id normalRange (dashboard_row sample_label empty_run_null_band)
       = Inr (Range (Num 0) (Num 0))
   \<and> detail_range (Some empty_run_no_band) = Dash
   \<and> detail_range (Some empty_run_null_band) = Dash"
  by (simp add: dashboard_row_def detail_range_def loadDashboard_def empty_run_backend_def
        blank_dashboard_def empty_run_no_band_def empty_run_null_band_def Let_def)

text \<open>The panel shows the dash whenever one of the two quartiles is missing or \<^verbatim>\<open>null\<close>.\<close>

lemma detail_range_dash:
  "\<not> not_nullish (stats_q1 s) \<or> \<not> not_nullish (stats_q3 s) \<Longrightarrow> detail_range (Some s) = Dash"
  by (auto simp: detail_range_def)

lemma length_all_ok: "all_ok rs = Inr xs \<Longrightarrow> length xs = length rs"
proof (induction rs arbitrary: xs)
  case Nil
  then show ?case by simp
next
  case (Cons r rs)
  then show ?case by (cases r) (auto split: sum.splits)
qed

lemma all_ok_map_nth:
  "all_ok (map f ys) = Inr xs \<Longrightarrow> i < length ys \<Longrightarrow> f (ys ! i) = Inr (xs ! i)"
proof (induction ys arbitrary: xs i)
  case Nil
  then show ?case by simp
next
  case (Cons y ys)
  then show ?case by (cases "f y"; cases i) (auto split: sum.splits)
qed

lemma dashboard_row_keyword: "dashboard_row f s = Inr r \<Longrightarrow> row_keyword r = stats_keyword s"
  by (auto simp: dashboard_row_def split: option.splits)

lemma all_ok_rows_keywords:
  "all_ok (map (dashboard_row f) stats) = Inr mapped \<Longrightarrow> map row_keyword mapped = map stats_keyword stats"
proof (induction stats arbitrary: mapped)
  case Nil
  then show ?case by simp
next
  case (Cons s stats)
  then show ?case
    by (cases "dashboard_row f s") (auto split: sum.splits dest: dashboard_row_keyword)
qed

text \<open>
  Claim C8. For every keyword list that \<^verbatim>\<open>listKeywords\<close> returned, \<^verbatim>\<open>loadDashboard\<close> sends one
  request for the keywords, which carries no limit, then one stats request for each of
  the first 25 keywords and no other, then series requests for at most 4 keywords: for
  none when a stats request or a row failed, and otherwise for the keywords of the first
  four stats replies, which are the first four keywords of the list when each reply
  names the keyword it was asked for.
\<close>

theorem loadDashboard_requests:
  assumes "keywords_reply be = Inr kws"
  shows "fst (loadDashboard lib getTime formatDate be st)
           = GetKeywords # map GetStats (take 25 kws) @ map GetSeries (cards_for formatDate be kws)
       \<and> length (take 25 kws) \<le> 25
       \<and> length (cards_for formatDate be kws) \<le> 4
       \<and> ((\<forall>k s. stats_reply be k = Inr s \<longrightarrow> stats_keyword s = k) \<longrightarrow>
            cards_for formatDate be kws = [] \<or> cards_for formatDate be kws = take 4 kws)"
proof -
  have req: "fst (loadDashboard lib getTime formatDate be st)
           = GetKeywords # map GetStats (take 25 kws) @ map GetSeries (cards_for formatDate be kws)"
  proof (cases "kws = []")
    case True
    then show ?thesis using assms by (simp add: loadDashboard_def cards_for_def)
  next
    case False
    then show ?thesis using assms
      by (auto simp: loadDashboard_def cards_for_def loadPriceChangesForCards_def Let_def
               take_map [symmetric] all_ok_rows_keywords
               split: sum.splits)
  qed
  have len: "length (cards_for formatDate be kws) \<le> 4"
    by (simp add: cards_for_def split: sum.splits)
  have echo: "cards_for formatDate be kws = [] \<or> cards_for formatDate be kws = take 4 kws"
    if e: "\<forall>k s. stats_reply be k = Inr s \<longrightarrow> stats_keyword s = k"
  proof (cases "all_ok (map (stats_reply be) (take 25 kws))")
    case (Inl a)
    then show ?thesis by (simp add: cards_for_def)
  next
    case (Inr stats)
    have l: "length stats = length (take 25 kws)" using Inr length_all_ok by fastforce
    have "stats_keyword (stats ! i) = take 25 kws ! i" if "i < length (take 25 kws)" for i
      using all_ok_map_nth [OF Inr that] e by blast
    then have "map stats_keyword stats = take 25 kws"
      using l by (simp add: list_eq_iff_nth_eq)
    then have "map stats_keyword (take 4 stats) = take 4 kws"
      by (simp add: take_map [symmetric] min_def)
    then show ?thesis using Inr by (simp add: cards_for_def split: sum.splits)
  qed
  show ?thesis using req len echo by simp
qed

text \<open>The theorem at a store with 27 keywords: 25 stats requests, 4 series requests.\<close>

theorem loadDashboard_requests_witness:
  "fst (loadDashboard exact_lib sample_clock sample_label sample_backend blank_dashboard)
     = GetKeywords # map GetStats (take 25 sample_keywords) @ map GetSeries (take 4 sample_keywords)
   \<and> length (take 25 sample_keywords) = 25
   \<and> length (take 4 sample_keywords) = 4"
proof -
  have k: "keywords_reply sample_backend = Inr sample_keywords"
    by (simp add: sample_backend_def)
  have e: "\<forall>k s. stats_reply sample_backend k = Inr s \<longrightarrow> stats_keyword s = k"
    by (auto simp: sample_backend_def)
  have c: "cards_for sample_label sample_backend sample_keywords \<noteq> []"
    by (simp add: cards_for_def sample_backend_def sample_keywords_def dashboard_row_def)
  show ?thesis
    using loadDashboard_requests [OF k, of exact_lib sample_clock sample_label blank_dashboard] e c
    by (simp add: sample_keywords_def)
qed

section \<open>The search form\<close>

lemma toNumOrUndef_cases:
  "toNumOrUndef number v =
     (if trim v = [] then None
      else (case number (trim v) of Num r \<Rightarrow> Some (Num r) | _ \<Rightarrow> None))"
  by (simp add: toNumOrUndef_def Let_def split: jsnum.splits)

lemma bound_sent:
  fixes number v
  defines "x \<equiv> toNumOrUndef number v"
  defines "b \<equiv> map_option json_number (toNumOrUndef number v)"
  shows "x = None \<or> (\<exists>r. x = Some (Num r))"
    and "b = None \<or> (\<exists>r. b = Some (JNum (Num r)))"
    and "trim v = [] \<or> \<not> isFinite (number (trim v)) \<longrightarrow> b = None"
    and "\<forall>r. trim v \<noteq> [] \<and> number (trim v) = Num r \<longrightarrow> b = Some (JNum (Num r))"
  unfolding x_def b_def
  by (cases "number (trim v)"; simp add: toNumOrUndef_cases json_number_def)+

text \<open>
  Claim C10. Whenever \<^verbatim>\<open>handleSearch\<close> sends a request, each price bound of its options
  is either \<^verbatim>\<open>undefined\<close> or a finite number, and the body of the request either has no
  member for the bound or has a finite number there. A field that is empty or white
  space only, and a field whose text \<^verbatim>\<open>Number\<close> does not read as a finite number, leave the
  member out; a field that reads as a finite number sends that number.
\<close>

theorem search_price_bounds:
  assumes "handleSearch number form = Some (kw, opts)"
  shows "(min_price opts = None \<or> (\<exists>r. min_price opts = Some (Num r)))
       \<and> (max_price opts = None \<or> (\<exists>r. max_price opts = Some (Num r)))
       \<and> (map_of (scrape_body opts) ''min_price'' = None
            \<or> (\<exists>r. map_of (scrape_body opts) ''min_price'' = Some (JNum (Num r))))
       \<and> (map_of (scrape_body opts) ''max_price'' = None
            \<or> (\<exists>r. map_of (scrape_body opts) ''max_price'' = Some (JNum (Num r))))
       \<and> (trim (minPrice form) = [] \<or> \<not> isFinite (number (trim (minPrice form)))
            \<longrightarrow> map_of (scrape_body opts) ''min_price'' = None)
       \<and> (trim (maxPrice form) = [] \<or> \<not> isFinite (number (trim (maxPrice form)))
            \<longrightarrow> map_of (scrape_body opts) ''max_price'' = None)
       \<and> (\<forall>r. trim (minPrice form) \<noteq> [] \<and> number (trim (minPrice form)) = Num r
            \<longrightarrow> map_of (scrape_body opts) ''min_price'' = Some (JNum (Num r)))
       \<and> (\<forall>r. trim (maxPrice form) \<noteq> [] \<and> number (trim (maxPrice form)) = Num r
            \<longrightarrow> map_of (scrape_body opts) ''max_price'' = Some (JNum (Num r)))"
proof -
  from assms have mn: "min_price opts = toNumOrUndef number (minPrice form)"
    and mx: "max_price opts = toNumOrUndef number (maxPrice form)"
    by (auto simp: handleSearch_def Let_def split: if_splits)
  have bmn: "map_of (scrape_body opts) ''min_price''
             = map_option json_number (toNumOrUndef number (minPrice form))"
    by (simp add: scrape_body_def mn [symmetric] split: option.splits)
  have bmx: "map_of (scrape_body opts) ''max_price''
             = map_option json_number (toNumOrUndef number (maxPrice form))"
    by (simp add: scrape_body_def mx [symmetric] split: option.splits)
  show ?thesis
    unfolding bmn bmx mn mx
    using bound_sent [where number = number and v = "minPrice form"]
      bound_sent [where number = number and v = "maxPrice form"]
    by blast
qed

text \<open>The theorem at a form with the minimum \<^verbatim>\<open>250\<close> between spaces and the maximum \<^verbatim>\<open>abc\<close>.\<close>

theorem search_price_bounds_witness:
  "map_of (scrape_body (snd (the (handleSearch (\<lambda>s. if s = ''250'' then Num 250 else NaN)
      \<lparr>searchTerm = '' ps5 '', minPrice = '' 250 '', maxPrice = ''abc'', filterMode = Soft,
        excludeBadText = True\<rparr>)))) ''min_price'' = Some (JNum (Num 250))
   \<and> map_of (scrape_body (snd (the (handleSearch (\<lambda>s. if s = ''250'' then Num 250 else NaN)
      \<lparr>searchTerm = '' ps5 '', minPrice = '' 250 '', maxPrice = ''abc'', filterMode = Soft,
        excludeBadText = True\<rparr>)))) ''max_price'' = None"
proof -
  let ?number = "\<lambda>s. if s = ''250'' then Num 250 else NaN"
  let ?form = "\<lparr>searchTerm = '' ps5 '', minPrice = '' 250 '', maxPrice = ''abc'', filterMode = Soft,
        excludeBadText = True\<rparr>"
  let ?opts = "\<lparr>min_price = Some (Num 250), max_price = None, filter_mode = Soft,
        exclude_bad_text = True\<rparr>"
  have h: "handleSearch ?number ?form = Some (''ps5'', ?opts)"
    by (simp add: handleSearch_def toNumOrUndef_def trim_def is_space_def Let_def)
  have t: "trim '' 250 '' = ''250''" "trim ''abc'' = ''abc''"
    by (simp_all add: trim_def is_space_def)
  show ?thesis
    using search_price_bounds [OF h] by (simp add: h t)
qed

section \<open>The scheduled tasks\<close>

lemma task_names_differ: "taskDaily a \<noteq> taskLogon a"
  by (simp add: taskDaily_def taskLogon_def)

lemma lower_exe: "map lower ''exe'' = ''exe''"
  by (simp add: lower_def)

lemma lower_python: "map lower ''python'' \<noteq> ''exe''"
  by simp

lemma runner_root:
  "(if is_blank (project_root h a) then cwd h else project_root h a) = project_root h a"
  by (simp add: project_root_def)

text \<open>
  Claim C7. After every install that succeeded, two tasks are there under two different
  names: the daily one, which fires every day at the time given, and the one that fires
  at every logon. Both carry the same command: PowerShell on the file
  \<^verbatim>\<open>scripts\run_daily_scrape.ps1\<close> of the project root, which is there, with the mode and
  the project root of the install. That runner starts the daily scrape: in the mode
  \<^verbatim>\<open>exe\<close> the program \<^verbatim>\<open>valyro.exe --daily-scrape --headless\<close> of the project root, in
  every other mode \<^verbatim>\<open>python -m scripts.daily_scrape\<close> with the interpreter of the virtual
  environment of the project or else the one on the path; where the program or the
  interpreter is missing it ends with the code 99. No other task has changed.
\<close>

theorem install_creates_two_tasks:
  assumes "install_daily_task h a = Inr h'"
  shows
    "let root = (if is_blank (ProjectRoot a) then cwd h else ProjectRoot a);
         file = join_path h root (''scripts'' @ [CHR 0x5C] @ ''run_daily_scrape.ps1'');
         cmd = ''powershell.exe -NoProfile -ExecutionPolicy Bypass -File '' @ quoted file
               @ '' -Mode '' @ Mode a @ '' -ProjectRoot '' @ quoted root;
         venvPy = join_path h root (''.venv'' @ [CHR 0x5C] @ ''Scripts'' @ [CHR 0x5C] @ ''python.exe'')
     in tasks h' (TaskBase a @ '' (Daily)'')
          = Some \<lparr>task_schedule = DAILY (Time a), task_run = cmd, task_level = ''LIMITED''\<rparr>
      \<and> tasks h' (TaskBase a @ '' (OnLogon)'')
          = Some \<lparr>task_schedule = ONLOGON, task_run = cmd, task_level = ''LIMITED''\<rparr>
      \<and> TaskBase a @ '' (Daily)'' \<noteq> TaskBase a @ '' (OnLogon)''
      \<and> (\<forall>tn. tn \<noteq> TaskBase a @ '' (Daily)'' \<and> tn \<noteq> TaskBase a @ '' (OnLogon)''
             \<longrightarrow> tasks h' tn = tasks h tn)
      \<and> test_path h' file
      \<and> run_daily_scrape h' python (Mode a) root
          = (if map lower (Mode a) = ''exe''
             then (if test_path h (join_path h root ''valyro.exe'')
                   then Launch (join_path h root ''valyro.exe'') [''--daily-scrape'', ''--headless'']
                   else Exit99)
             else (if test_path h venvPy then Launch venvPy [''-m'', ''scripts.daily_scrape'']
                   else (case python of
                           None \<Rightarrow> Exit99
                         | Some src \<Rightarrow> Launch src [''-m'', ''scripts.daily_scrape''])))"
proof -
  from assms have ex: "test_path h (runner h a)"
    and h': "h' = h\<lparr>tasks :=
        schtasks_create (taskLogon a) ONLOGON (taskCmd h a) ''LIMITED''
          (schtasks_create (taskDaily a) (DAILY (Time a)) (taskCmd h a) ''LIMITED'' (tasks h))\<rparr>"
    by (auto simp: install_daily_task_def Let_def split: if_splits)
  have sel: "cwd h' = cwd h" "join_path h' = join_path h" "test_path h' = test_path h"
    by (simp_all add: h')
  have run: "run_daily_scrape h' python (Mode a) (project_root h a)
          = (if map lower (Mode a) = ''exe''
             then (if test_path h (join_path h (project_root h a) ''valyro.exe'')
                   then Launch (join_path h (project_root h a) ''valyro.exe'')
                          [''--daily-scrape'', ''--headless'']
                   else Exit99)
             else (if test_path h (join_path h (project_root h a)
                          (''.venv'' @ [CHR 0x5C] @ ''Scripts'' @ [CHR 0x5C] @ ''python.exe''))
                   then Launch (join_path h (project_root h a)
                          (''.venv'' @ [CHR 0x5C] @ ''Scripts'' @ [CHR 0x5C] @ ''python.exe''))
                          [''-m'', ''scripts.daily_scrape'']
                   else (case python of
                           None \<Rightarrow> Exit99
                         | Some src \<Rightarrow> Launch src [''-m'', ''scripts.daily_scrape''])))"
    unfolding run_daily_scrape_def ps_eq_def lower_exe sel runner_root Let_def
    by simp
  have tk: "tasks h' (taskDaily a)
              = Some \<lparr>task_schedule = DAILY (Time a), task_run = taskCmd h a, task_level = ''LIMITED''\<rparr>"
    "tasks h' (taskLogon a)
              = Some \<lparr>task_schedule = ONLOGON, task_run = taskCmd h a, task_level = ''LIMITED''\<rparr>"
    "\<forall>tn. tn \<noteq> taskDaily a \<and> tn \<noteq> taskLogon a \<longrightarrow> tasks h' tn = tasks h tn"
    using task_names_differ [of a] by (auto simp: h' schtasks_create_def)
  have ex': "test_path h' (runner h a)" using ex by (simp add: h')
  show ?thesis
    using tk ex' run task_names_differ [of a]
    unfolding Let_def taskDaily_def taskLogon_def taskCmd_def runner_def project_root_def
    by simp
qed

text \<open>
  The theorem at an install for 09:30 in the mode \<^verbatim>\<open>python\<close>, on a machine without tasks
  that has the virtual environment.
\<close>

theorem install_creates_two_tasks_witness:
  "map_sum id
     (\<lambda>h'. (map_option task_schedule (tasks h' ''Valyro - Daily Scrape (Daily)''),
            map_option task_schedule (tasks h' ''Valyro - Daily Scrape (OnLogon)''),
            map_option task_run (tasks h' ''Valyro - Daily Scrape (Daily)''),
            map_option task_run (tasks h' ''Valyro - Daily Scrape (OnLogon)''),
            run_daily_scrape h' None ''python'' ''C:/Valyro''))
     (install_daily_task sample_host install_0930)
   = Inr (Some (DAILY ''09:30''), Some ONLOGON,
          Some (''powershell.exe -NoProfile -ExecutionPolicy Bypass -File ''
                @ quoted (''C:/Valyro'' @ [CHR 0x5C] @ ''scripts'' @ [CHR 0x5C] @ ''run_daily_scrape.ps1'')
                @ '' -Mode python -ProjectRoot '' @ quoted ''C:/Valyro''),
          Some (''powershell.exe -NoProfile -ExecutionPolicy Bypass -File ''
                @ quoted (''C:/Valyro'' @ [CHR 0x5C] @ ''scripts'' @ [CHR 0x5C] @ ''run_daily_scrape.ps1'')
                @ '' -Mode python -ProjectRoot '' @ quoted ''C:/Valyro''),
          Launch (''C:/Valyro'' @ [CHR 0x5C] @ ''.venv'' @ [CHR 0x5C] @ ''Scripts'' @ [CHR 0x5C]
                  @ ''python.exe'') [''-m'', ''scripts.daily_scrape''])"
proof -
  have i: "install_daily_task sample_host install_0930
           = Inr (sample_host\<lparr>tasks :=
               schtasks_create (taskLogon install_0930) ONLOGON (taskCmd sample_host install_0930) ''LIMITED''
                 (schtasks_create (taskDaily install_0930) (DAILY (Time install_0930))
                    (taskCmd sample_host install_0930) ''LIMITED'' (tasks sample_host))\<rparr>)"
    by (simp add: install_daily_task_def sample_host_def Let_def)
  have v: "is_blank (ProjectRoot install_0930)" "cwd sample_host = ''C:/Valyro''"
    "join_path sample_host = (\<lambda>a b. a @ [CHR 0x5C] @ b)" "test_path sample_host = (\<lambda>p. True)"
    "Time install_0930 = ''09:30''" "Mode install_0930 = ''python''"
    "TaskBase install_0930 = ''Valyro - Daily Scrape''"
    by (simp_all add: install_0930_def sample_host_def is_blank_def)
  show ?thesis
    using install_creates_two_tasks [OF i, of None] lower_python
    by (simp add: i v Let_def)
qed

text \<open>
  Claim C6. On a machine where the runner is there, an install followed by an install
  with another time both succeed, the second without a remove in between. Afterwards
  the scheduler is what one install with the second time would have left: the tasks
  that were there before, the daily task with the second time and the logon task. The
  second install adds no task to those the first one left.
\<close>

theorem install_twice:
  assumes "test_path h (runner h a)"
  shows "\<exists>h1 h2. install_daily_task h a = Inr h1
           \<and> install_daily_task h1 (a\<lparr>Time := t2\<rparr>) = Inr h2
           \<and> install_daily_task h (a\<lparr>Time := t2\<rparr>) = Inr h2
           \<and> tasks h2 = (tasks h)
               (taskDaily a \<mapsto> \<lparr>task_schedule = DAILY t2, task_run = taskCmd h a, task_level = ''LIMITED''\<rparr>,
                taskLogon a \<mapsto> \<lparr>task_schedule = ONLOGON, task_run = taskCmd h a, task_level = ''LIMITED''\<rparr>)
           \<and> dom (tasks h2) = dom (tasks h1)
           \<and> dom (tasks h2) = dom (tasks h) \<union> {taskDaily a, taskLogon a}
           \<and> taskDaily a \<noteq> taskLogon a"
proof -
  let ?a2 = "a\<lparr>Time := t2\<rparr>"
  define h1 where "h1 = h\<lparr>tasks := schtasks_create (taskLogon a) ONLOGON (taskCmd h a) ''LIMITED''
        (schtasks_create (taskDaily a) (DAILY (Time a)) (taskCmd h a) ''LIMITED'' (tasks h))\<rparr>"
  define h2 where "h2 = h\<lparr>tasks := schtasks_create (taskLogon a) ONLOGON (taskCmd h a) ''LIMITED''
        (schtasks_create (taskDaily a) (DAILY t2) (taskCmd h a) ''LIMITED'' (tasks h))\<rparr>"
  have a2: "runner h ?a2 = runner h a" "taskCmd h ?a2 = taskCmd h a"
    "taskDaily ?a2 = taskDaily a" "taskLogon ?a2 = taskLogon a"
    by (simp_all add: runner_def taskCmd_def project_root_def taskDaily_def taskLogon_def)
  have same: "runner h1 a = runner h a" "taskCmd h1 a = taskCmd h a" "test_path h1 = test_path h"
    "runner h1 ?a2 = runner h a" "taskCmd h1 ?a2 = taskCmd h a"
    by (simp_all add: h1_def runner_def taskCmd_def project_root_def)
  have i1: "install_daily_task h a = Inr h1"
    using assms by (simp add: install_daily_task_def h1_def Let_def)
  have i2: "install_daily_task h1 ?a2 = Inr h2"
    using assms task_names_differ [of a]
    by (simp add: install_daily_task_def same a2 Let_def)
       (simp add: h1_def h2_def schtasks_create_def fun_upd_twist)
  have i3: "install_daily_task h ?a2 = Inr h2"
    using assms by (simp add: install_daily_task_def a2 h2_def Let_def)
  have t2: "tasks h2 = (tasks h)
               (taskDaily a \<mapsto> \<lparr>task_schedule = DAILY t2, task_run = taskCmd h a, task_level = ''LIMITED''\<rparr>,
                taskLogon a \<mapsto> \<lparr>task_schedule = ONLOGON, task_run = taskCmd h a, task_level = ''LIMITED''\<rparr>)"
    by (simp add: h2_def schtasks_create_def)
  have d1: "dom (tasks h2) = dom (tasks h1)"
    by (simp add: h1_def h2_def schtasks_create_def)
  have d2: "dom (tasks h2) = dom (tasks h) \<union> {taskDaily a, taskLogon a}"
    by (auto simp: t2)
  show ?thesis using i1 i2 i3 t2 d1 d2 task_names_differ [of a] by blast
qed

text \<open>
  The theorem at an install for 09:30 and then for 21:00 on a machine without tasks:
  two tasks, the daily one at 21:00.
\<close>

theorem install_twice_witness:
  "\<exists>h1 h2. install_daily_task sample_host install_0930 = Inr h1
     \<and> install_daily_task h1 (install_0930\<lparr>Time := ''21:00''\<rparr>) = Inr h2
     \<and> dom (tasks h2) = {''Valyro - Daily Scrape (Daily)'', ''Valyro - Daily Scrape (OnLogon)''}
     \<and> map_option task_schedule (tasks h2 ''Valyro - Daily Scrape (Daily)'') = Some (DAILY ''21:00'')
     \<and> map_option task_schedule (tasks h2 ''Valyro - Daily Scrape (OnLogon)'') = Some ONLOGON"
proof -
  have r: "test_path sample_host (runner sample_host install_0930)"
    by (simp add: sample_host_def)
  have n: "taskDaily install_0930 = ''Valyro - Daily Scrape (Daily)''"
    "taskLogon install_0930 = ''Valyro - Daily Scrape (OnLogon)''"
    by (simp_all add: taskDaily_def taskLogon_def install_0930_def)
  have e: "tasks sample_host = Map.empty"
    by (simp add: sample_host_def)
  from install_twice [OF r, of "''21:00''"] obtain h1 h2 where
    "install_daily_task sample_host install_0930 = Inr h1"
    "install_daily_task h1 (install_0930\<lparr>Time := ''21:00''\<rparr>) = Inr h2"
    "tasks h2 = (tasks sample_host)
       (taskDaily install_0930 \<mapsto> \<lparr>task_schedule = DAILY ''21:00'',
          task_run = taskCmd sample_host install_0930, task_level = ''LIMITED''\<rparr>,
        taskLogon install_0930 \<mapsto> \<lparr>task_schedule = ONLOGON,
          task_run = taskCmd sample_host install_0930, task_level = ''LIMITED''\<rparr>)"
    by blast
  then show ?thesis by (intro exI [of _ h1] exI [of _ h2]) (auto simp: n e)
qed

end
